theory Spec2Isabelle
  imports Main "HOL-Library.Word"
begin

unbundle bit_operations_syntax

section \<open>TrafficPi: a three-lamp traffic signal driven from GPIO switches\<close>

text \<open>
  A shallow embedding of \<^verbatim>\<open>src/TrafficPi.cpp\<close>. The program keeps its state in global
  and function-static variables and reacts to callbacks of the GPIO library; here the
  state is a record that every handler takes and returns.

  Machine integers: \<^verbatim>\<open>int\<close> is a 32-bit two's complement word, \<^verbatim>\<open>uint8_t\<close> an 8-bit
  word. A left shift drops the bits that leave the word, a right shift of an \<^verbatim>\<open>int\<close>
  is arithmetic (it copies the sign bit), which is what the compilers for the target do
  and what C++20 prescribes.
\<close>

type_synonym int32 = "32 word"
type_synonym uint32 = "32 word"
type_synonym uint8 = "8 word"

subsection \<open>Constants of the source\<close>

definition slowSpeed :: int32 where "slowSpeed = 5000"
definition mediumSpeed :: int32 where "mediumSpeed = 2000"
definition fastSpeed :: int32 where "fastSpeed = 1000"

definition redLight :: nat where "redLight = 2"
definition amberLight :: nat where "amberLight = 3"
definition greenLight :: nat where "greenLight = 4"
definition Lights :: "nat list" where
  "Lights = [redLight, amberLight, greenLight]"

definition redOnBias :: nat where "redOnBias = 17"
definition redOffBias :: nat where "redOffBias = 27"
definition amberOnBias :: nat where "amberOnBias = 22"
definition amberOffBias :: nat where "amberOffBias = 10"
definition greenOnBias :: nat where "greenOnBias = 9"
definition greenOffBias :: nat where "greenOffBias = 11"
definition OnBias :: "nat list" where
  "OnBias = [redOnBias, amberOnBias, greenOnBias]"
definition OffBias :: "nat list" where
  "OffBias = [redOffBias, amberOffBias, greenOffBias]"

definition modeRand :: nat where "modeRand = 0"
definition modeDownSlow :: nat where "modeDownSlow = 5"
definition modeDownMedium :: nat where "modeDownMedium = 6"
definition modeDownFast :: nat where "modeDownFast = 13"
definition modeUpSlow :: nat where "modeUpSlow = 19"
definition modeUpMedium :: nat where "modeUpMedium = 26"
definition modeUpFast :: nat where "modeUpFast = 12"
definition modeFlashSlow :: nat where "modeFlashSlow = 16"
definition modeFlashMedium :: nat where "modeFlashMedium = 20"
definition modeFlashFast :: nat where "modeFlashFast = 21"
definition Modes :: "nat list" where
  "Modes = [modeRand,
            modeDownSlow, modeDownMedium, modeDownFast,
            modeUpSlow, modeUpMedium, modeUpFast,
            modeFlashSlow, modeFlashMedium, modeFlashFast]"

text \<open>
  Modelled from the spec: the macro \<^verbatim>\<open>INT_BITS\<close> used by \<^verbatim>\<open>rightRotate\<close> and
  \<^verbatim>\<open>leftRotate\<close> is not defined anywhere in the source. The spec describes the
  rotation of the source as a full-width rotation, so \<^verbatim>\<open>INT_BITS\<close> is the width of
  an \<^verbatim>\<open>int\<close>.
\<close>

definition INT_BITS :: nat where "INT_BITS = 32"

subsection \<open>Program state\<close>

text \<open>
  The positions in the array of direction functions (\<^verbatim>\<open>#define rotateDown 0\<close>,
  \<^verbatim>\<open>rotateUp 1\<close>, \<^verbatim>\<open>rotateNone 2\<close>) are the only values \<^verbatim>\<open>_rotation\<close> is ever
  assigned; they form an enumeration. A \<^verbatim>\<open>DirectionFunction\<close> is a pointer to one of
  the three step functions.
\<close>

datatype rotation = rotateDown | rotateUp | rotateNone

datatype DirectionFunction = Fn_RotateDown | Fn_RotateUp | Fn_RotateNone

text \<open>One call of \<^verbatim>\<open>gpioSetTimerFunc(timer, millis, f)\<close>; \<open>None\<close> is \<^verbatim>\<open>NULL\<close>.\<close>

datatype timer_call = SetTimerFunc nat int32 "DirectionFunction option"

record traffic_state =
  BIAS_ON_MASK :: int32
  BIAS_OFF_MASK :: int32
  Sequence_Stage :: int32
  flash_step :: int32 \<comment> \<open>\<^verbatim>\<open>static int flash_step\<close> of \<^verbatim>\<open>RotateNone\<close>\<close>
  static_speed :: int32 \<comment> \<open>\<^verbatim>\<open>static int _speed\<close> of \<^verbatim>\<open>updateTimerMode\<close>\<close>
  static_rotation :: rotation \<comment> \<open>\<^verbatim>\<open>static int _rotation\<close> of \<^verbatim>\<open>updateTimerMode\<close>\<close>
  gpio_in :: "nat \<Rightarrow> bool" \<comment> \<open>the level of every input pin\<close>
  gpio_out :: "nat \<rightharpoonup> int32" \<comment> \<open>the level last written to a pin\<close>
  timers :: "nat \<rightharpoonup> int32 \<times> DirectionFunction" \<comment> \<open>the armed timers, by timer number\<close>
  timer_calls :: "timer_call list" \<comment> \<open>every call of \<^verbatim>\<open>gpioSetTimerFunc\<close>, oldest first\<close>

text \<open>The initialisers of the globals and statics; the input pins are given.\<close>

definition initial_state :: "(nat \<Rightarrow> bool) \<Rightarrow> traffic_state" where
  "initial_state pins =
     \<lparr> BIAS_ON_MASK = 0, BIAS_OFF_MASK = 7, Sequence_Stage = 4,
       flash_step = 7, static_speed = mediumSpeed, static_rotation = rotateDown,
       gpio_in = pins, gpio_out = Map.empty, timers = Map.empty, timer_calls = [] \<rparr>"

subsection \<open>The GPIO capability\<close>

text \<open>
  The library calls the program makes. \<^verbatim>\<open>gpioRead\<close> gives 0 or 1; \<^verbatim>\<open>gpioWrite\<close> sets
  an output; \<^verbatim>\<open>gpioSetTimerFunc\<close> with \<^verbatim>\<open>NULL\<close> cancels the timer of that number and
  with a function arms it (the comment block on timers in the source, lines 96 to 105).
\<close>

definition gpioRead :: "traffic_state \<Rightarrow> nat \<Rightarrow> int32" where
  "gpioRead s pin = of_bool (gpio_in s pin)"

definition gpioWrite :: "nat \<Rightarrow> int32 \<Rightarrow> traffic_state \<Rightarrow> traffic_state" where
  "gpioWrite pin level s = s\<lparr>gpio_out := (gpio_out s)(pin \<mapsto> level)\<rparr>"

definition gpioSetTimerFunc ::
  "nat \<Rightarrow> int32 \<Rightarrow> DirectionFunction option \<Rightarrow> traffic_state \<Rightarrow> traffic_state" where
  "gpioSetTimerFunc timer millis f s =
     s\<lparr>timers := (case f of None \<Rightarrow> (timers s)(timer := None)
                    | Some g \<Rightarrow> (timers s)(timer \<mapsto> (millis, g))),
       timer_calls := timer_calls s @ [SetTimerFunc timer millis f]\<rparr>"

subsection \<open>Bias switches\<close>

text \<open>
  The operator \<^verbatim>\<open><<\<close> on \<^verbatim>\<open>int\<close>. A count that is negative or not below 32 is
  undefined in C++; what the machine gives then is the parameter \<open>oor\<close>.
\<close>

definition shl :: "(int32 \<Rightarrow> int32 \<Rightarrow> int32) \<Rightarrow> int32 \<Rightarrow> int32 \<Rightarrow> int32" where
  "shl oor x n =
     (if 0 \<le> sint n \<and> sint n < 32 then push_bit (nat (sint n)) x else oor x n)"

text \<open>
  \<^verbatim>\<open>BIAS_ON_MASK = gpioRead(redOnBias) << gpioRead(amberOnBias) << gpioRead(greenOnBias);\<close>
  The operator associates to the left.
\<close>

definition updateOnBias ::
  "(int32 \<Rightarrow> int32 \<Rightarrow> int32) \<Rightarrow> nat \<Rightarrow> int32 \<Rightarrow> uint32 \<Rightarrow> traffic_state \<Rightarrow> traffic_state" where
  "updateOnBias oor pin level tick s =
     (if level = 0 \<or> level = 1
      then s\<lparr>BIAS_ON_MASK :=
               shl oor (shl oor (gpioRead s redOnBias) (gpioRead s amberOnBias))
                       (gpioRead s greenOnBias)\<rparr>
      else s)"

text \<open>
  \<^verbatim>\<open>BIAS_OFF_MASK = ~gpioRead(redOffBias) << ~gpioRead(amberOffBias) << ~gpioRead(greenOffBias);\<close>
  The complement binds tighter than the shift.
\<close>

definition updateOffBias ::
  "(int32 \<Rightarrow> int32 \<Rightarrow> int32) \<Rightarrow> nat \<Rightarrow> int32 \<Rightarrow> uint32 \<Rightarrow> traffic_state \<Rightarrow> traffic_state" where
  "updateOffBias oor pin level tick s =
     (if level = 0 \<or> level = 1
      then s\<lparr>BIAS_OFF_MASK :=
               shl oor (shl oor (NOT (gpioRead s redOffBias)) (NOT (gpioRead s amberOffBias)))
                       (NOT (gpioRead s greenOffBias))\<rparr>
      else s)"

subsection \<open>Light driver\<close>

text \<open>
  The request is a \<^verbatim>\<open>uint8_t\<close>; in each expression it is promoted to \<^verbatim>\<open>int\<close> before
  the mask and the shift.
\<close>

definition updateLights :: "uint8 \<Rightarrow> traffic_state \<Rightarrow> traffic_state" where
  "updateLights outputRequest s =
     (let r = outputRequest AND 7;
          s1 = gpioWrite redLight (drop_bit 2 ((ucast r :: int32) AND 4)) s;
          s2 = gpioWrite amberLight (drop_bit 1 ((ucast r :: int32) AND 2)) s1
      in gpioWrite greenLight ((ucast r :: int32) AND 1) s2)"

subsection \<open>Rotation\<close>

text \<open>
  The shift counts here are 1 and \<^verbatim>\<open>INT_BITS - 1\<close>, both within the width of the
  word; the right shift is the arithmetic one.
\<close>

definition rightRotate :: "int32 \<Rightarrow> int32" where
  "rightRotate n = (let d = 1 in signed_drop_bit d n OR push_bit (INT_BITS - d) n)"

definition leftRotate :: "int32 \<Rightarrow> int32" where
  "leftRotate n = (let d = 1 in push_bit d n OR signed_drop_bit (INT_BITS - d) n)"

subsection \<open>Step functions\<close>

text \<open>
  Modelled from the spec: \<^verbatim>\<open>RotateDown\<close> and \<^verbatim>\<open>RotateUp\<close> read a variable
  \<^verbatim>\<open>Sequence_Step\<close> that the source never declares. The spec has one sequence state,
  which a step reads, replaces by the rotated pattern and then sends to the lamps, so
  \<^verbatim>\<open>Sequence_Step\<close> names the global \<^verbatim>\<open>Sequence_Stage\<close>.
\<close>

definition Sequence_Step :: "traffic_state \<Rightarrow> int32" where
  "Sequence_Step s = Sequence_Stage s"

definition RotateDown :: "traffic_state \<Rightarrow> traffic_state" where
  "RotateDown s =
     (let s1 = s\<lparr>Sequence_Stage := rightRotate (Sequence_Step s)\<rparr>;
          output = Sequence_Step s1;
          output = output OR BIAS_ON_MASK s1;
          output = output AND BIAS_OFF_MASK s1
      in updateLights (ucast output) s1)"

definition RotateUp :: "traffic_state \<Rightarrow> traffic_state" where
  "RotateUp s =
     (let s1 = s\<lparr>Sequence_Stage := leftRotate (Sequence_Step s)\<rparr>;
          output = Sequence_Step s1;
          output = output OR BIAS_ON_MASK s1;
          output = output AND BIAS_OFF_MASK s1
      in updateLights (ucast output) s1)"

definition RotateNone :: "traffic_state \<Rightarrow> traffic_state" where
  "RotateNone s =
     (let s1 = s\<lparr>flash_step := NOT (flash_step s)\<rparr>;
          output = flash_step s1;
          output = output OR BIAS_ON_MASK s1;
          output = output AND BIAS_OFF_MASK s1
      in updateLights (ucast output) s1)"

text \<open>Calling through a function pointer, and one tick of an armed timer.\<close>

definition call :: "DirectionFunction \<Rightarrow> traffic_state \<Rightarrow> traffic_state" where
  "call f s = (case f of Fn_RotateDown \<Rightarrow> RotateDown s
                       | Fn_RotateUp \<Rightarrow> RotateUp s
                       | Fn_RotateNone \<Rightarrow> RotateNone s)"

definition timer_tick :: "nat \<Rightarrow> traffic_state \<Rightarrow> traffic_state" where
  "timer_tick timer s = (case timers s timer of None \<Rightarrow> s | Some (millis, f) \<Rightarrow> call f s)"

subsection \<open>Mode switches\<close>

text \<open>\<^verbatim>\<open>DirectionFunction _directionFunction[] = { RotateDown, RotateUp, RotateNone };\<close>\<close>

definition directionFunction :: "rotation \<Rightarrow> DirectionFunction" where
  "directionFunction r = (case r of rotateDown \<Rightarrow> Fn_RotateDown
                                  | rotateUp \<Rightarrow> Fn_RotateUp
                                  | rotateNone \<Rightarrow> Fn_RotateNone)"

definition updateTimerMode ::
  "nat \<Rightarrow> int32 \<Rightarrow> uint32 \<Rightarrow> traffic_state \<Rightarrow> traffic_state" where
  "updateTimerMode pin level tick s =
     (let s1 = gpioSetTimerFunc 0 10 None s in
      if level \<noteq> 1 then s1
      else
        let s2 =
          (if pin = modeRand then s1
           else if pin = modeDownSlow
             then s1\<lparr>static_speed := slowSpeed, static_rotation := rotateDown\<rparr>
           else if pin = modeDownMedium
             then s1\<lparr>static_speed := mediumSpeed, static_rotation := rotateDown\<rparr>
           else if pin = modeDownFast
             then s1\<lparr>static_speed := fastSpeed, static_rotation := rotateDown\<rparr>
           else if pin = modeUpSlow
             then s1\<lparr>static_speed := slowSpeed, static_rotation := rotateUp\<rparr>
           else if pin = modeUpMedium
             then s1\<lparr>static_speed := mediumSpeed, static_rotation := rotateUp\<rparr>
           else if pin = modeUpFast
             then s1\<lparr>static_speed := fastSpeed, static_rotation := rotateUp\<rparr>
           else if pin = modeFlashSlow
             then s1\<lparr>static_speed := slowSpeed, static_rotation := rotateNone\<rparr>
           else if pin = modeFlashMedium
             then s1\<lparr>static_speed := mediumSpeed, static_rotation := rotateNone\<rparr>
           else if pin = modeFlashFast
             then s1\<lparr>static_speed := fastSpeed, static_rotation := rotateNone\<rparr>
           else s1)
        in gpioSetTimerFunc 0 (static_speed s2)
             (Some (directionFunction (static_rotation s2))) s2)"

text \<open>
  The table of the nine speed and direction settings as the head of the source lists
  them (settings 1 to 9, each at its pin), to compare the handler with: the pin, the
  interval in milliseconds and the step function.
\<close>

definition spec_mode_table :: "(nat \<times> int32 \<times> DirectionFunction) list" where
  "spec_mode_table =
     [(modeDownSlow, 5000, Fn_RotateDown), (modeDownMedium, 2000, Fn_RotateDown),
      (modeDownFast, 1000, Fn_RotateDown),
      (modeUpSlow, 5000, Fn_RotateUp), (modeUpMedium, 2000, Fn_RotateUp),
      (modeUpFast, 1000, Fn_RotateUp),
      (modeFlashSlow, 5000, Fn_RotateNone), (modeFlashMedium, 2000, Fn_RotateNone),
      (modeFlashFast, 1000, Fn_RotateNone)]"

subsection \<open>Startup scan\<close>

text \<open>
  The last loop of \<^verbatim>\<open>setup\<close> (lines 312 to 322): it walks \<^verbatim>\<open>Modes\<close> in order, skips
  a pin that reads 0, and at the first pin that does not it calls
  \<^verbatim>\<open>updateTimerMode(i, 1, 1234)\<close> and leaves the loop. The loops before it configure
  the pins and register the handlers; they touch nothing of the state modelled here.
\<close>

fun mode_scan :: "nat list \<Rightarrow> traffic_state \<Rightarrow> traffic_state" where
  "mode_scan [] s = s"
| "mode_scan (i # rest) s =
     (if gpioRead s i = 0 then mode_scan rest s else updateTimerMode i 1 1234 s)"

definition setup_scan :: "traffic_state \<Rightarrow> traffic_state" where
  "setup_scan s = mode_scan Modes s"

subsection \<open>Concrete inputs\<close>

text \<open>Inputs at which the handlers are evaluated below.\<close>

definition all_low :: "nat \<Rightarrow> bool" where
  "all_low pin = False"

definition two_modes_high :: "nat \<Rightarrow> bool" where
  "two_modes_high pin = (pin = modeDownMedium \<or> pin = modeUpSlow)"

definition amber_on_high :: "nat \<Rightarrow> bool" where
  "amber_on_high pin = (pin = amberOnBias)"

definition all_on_high :: "nat \<Rightarrow> bool" where
  "all_on_high pin = (pin = redOnBias \<or> pin = amberOnBias \<or> pin = greenOnBias)"

text \<open>The red lamp is forced on and forced off at once.\<close>

definition conflict_state :: traffic_state where
  "conflict_state = (initial_state all_low)\<lparr>BIAS_ON_MASK := 4, BIAS_OFF_MASK := 3\<rparr>"

text \<open>The state after the dial was turned to "downwards, slow" from the initial state.\<close>

definition running_state :: traffic_state where
  "running_state = updateTimerMode modeDownSlow 1 0 (initial_state all_low)"

section \<open>Properties\<close>

lemmas pin_defs =
  redLight_def amberLight_def greenLight_def
  redOnBias_def redOffBias_def amberOnBias_def amberOffBias_def
  greenOnBias_def greenOffBias_def
  modeRand_def modeDownSlow_def modeDownMedium_def modeDownFast_def
  modeUpSlow_def modeUpMedium_def modeUpFast_def
  modeFlashSlow_def modeFlashMedium_def modeFlashFast_def

lemmas speed_defs = slowSpeed_def mediumSpeed_def fastSpeed_def

subsection \<open>The light driver\<close>

lemma word7_mask: "(7 :: 'a::len word) = mask 3"
  by (simp add: mask_eq_exp_minus_1)

lemma word4_push: "(4 :: 'a::len word) = push_bit 2 1"
  by simp

lemma word2_push: "(2 :: 'a::len word) = push_bit 1 1"
  by simp

lemma lamp_red: "drop_bit 2 ((ucast ((r::uint8) AND 7) :: int32) AND 4) = of_bool (bit r 2)"
  unfolding word7_mask word4_push
  by (rule bit_word_eqI) (auto simp add: bit_simps numeral_2_eq_2)

lemma lamp_amber: "drop_bit 1 ((ucast ((r::uint8) AND 7) :: int32) AND 2) = of_bool (bit r 1)"
  unfolding word7_mask word2_push
  by (rule bit_word_eqI) (auto simp add: bit_simps)

lemma lamp_green: "(ucast ((r::uint8) AND 7) :: int32) AND 1 = of_bool (bit r 0)"
  unfolding word7_mask
  by (rule bit_word_eqI) (auto simp add: bit_simps)

text \<open>What \<^verbatim>\<open>updateLights\<close> does to the state: three writes, one per lamp.\<close>

lemma updateLights_levels:
  "updateLights r s =
     s\<lparr>gpio_out := (gpio_out s)(redLight \<mapsto> of_bool (bit r 2),
                                amberLight \<mapsto> of_bool (bit r 1),
                                greenLight \<mapsto> of_bool (bit r 0))\<rparr>"
  unfolding updateLights_def gpioWrite_def Let_def lamp_red lamp_amber lamp_green
  by simp

lemma bit_and7: "bit ((r::uint8) AND 7) n \<longleftrightarrow> bit r n \<and> n < 3"
  unfolding word7_mask by (auto simp add: bit_simps)

text \<open>
  C10. The light driver depends only on the low three bits of its request: the writes
  for a request \<open>r\<close> are those for \<open>r AND 7\<close>, the red pin gets bit 2, the amber pin
  bit 1 and the green pin bit 0 of the request.
\<close>

theorem updateLights_low_bits_only:
  "updateLights r s = updateLights (r AND 7) s
   \<and> gpio_out (updateLights r s) redLight = Some (of_bool (bit r 2))
   \<and> gpio_out (updateLights r s) amberLight = Some (of_bool (bit r 1))
   \<and> gpio_out (updateLights r s) greenLight = Some (of_bool (bit r 0))"
  by (simp add: updateLights_levels bit_and7 pin_defs)

subsection \<open>The bias masks on the way to the lamps\<close>

lemma bit_ucast_low: "n < 8 \<Longrightarrow> bit (ucast (x::int32) :: uint8) n = bit x n"
  by (simp add: bit_simps)

text \<open>Lamp \<open>i\<close> of \<^verbatim>\<open>Lights\<close> shows bit \<open>2 - i\<close> of the \<^verbatim>\<open>int\<close> handed to the driver.\<close>

lemma lamp_level:
  assumes "i < 3"
  shows "gpio_out (updateLights (ucast (x::int32)) s) (Lights ! i) = Some (of_bool (bit x (2 - i)))"
proof -
  from assms consider "i = 0" | "i = 1" | "i = 2" by linarith
  then show ?thesis
    by cases (simp_all add: updateLights_levels Lights_def pin_defs bit_ucast_low)
qed

text \<open>
  C1. In each of the three step functions the lamps show the candidate pattern with the
  force-on mask applied first and the force-off mask second,
  \<open>(candidate OR BIAS_ON_MASK) AND BIAS_OFF_MASK\<close>; the candidate is the rotated
  sequence stage, or the complemented flash step. So a lamp whose bit is set in the
  force-on mask and cleared in the force-off mask is written 0, whatever the step
  function: force-off vetoes force-on.
\<close>

theorem force_off_vetoes_force_on:
  "(\<forall>i<3. gpio_out (RotateDown s) (Lights ! i) =
       Some (of_bool (bit ((rightRotate (Sequence_Stage s) OR BIAS_ON_MASK s)
                           AND BIAS_OFF_MASK s) (2 - i))))
   \<and> (\<forall>i<3. gpio_out (RotateUp s) (Lights ! i) =
       Some (of_bool (bit ((leftRotate (Sequence_Stage s) OR BIAS_ON_MASK s)
                           AND BIAS_OFF_MASK s) (2 - i))))
   \<and> (\<forall>i<3. gpio_out (RotateNone s) (Lights ! i) =
       Some (of_bool (bit ((NOT (flash_step s) OR BIAS_ON_MASK s)
                           AND BIAS_OFF_MASK s) (2 - i))))
   \<and> (\<forall>i<3. bit (BIAS_ON_MASK s) (2 - i) \<and> \<not> bit (BIAS_OFF_MASK s) (2 - i) \<longrightarrow>
         (\<forall>f. gpio_out (call f s) (Lights ! i) = Some 0))"
proof -
  have d: "\<forall>i<3. gpio_out (RotateDown s) (Lights ! i) =
       Some (of_bool (bit ((rightRotate (Sequence_Stage s) OR BIAS_ON_MASK s)
                           AND BIAS_OFF_MASK s) (2 - i)))"
    by (simp add: RotateDown_def Sequence_Step_def Let_def lamp_level)
  have u: "\<forall>i<3. gpio_out (RotateUp s) (Lights ! i) =
       Some (of_bool (bit ((leftRotate (Sequence_Stage s) OR BIAS_ON_MASK s)
                           AND BIAS_OFF_MASK s) (2 - i)))"
    by (simp add: RotateUp_def Sequence_Step_def Let_def lamp_level)
  have n: "\<forall>i<3. gpio_out (RotateNone s) (Lights ! i) =
       Some (of_bool (bit ((NOT (flash_step s) OR BIAS_ON_MASK s)
                           AND BIAS_OFF_MASK s) (2 - i)))"
    by (simp add: RotateNone_def Let_def lamp_level)
  have v: "\<forall>i<3. bit (BIAS_ON_MASK s) (2 - i) \<and> \<not> bit (BIAS_OFF_MASK s) (2 - i) \<longrightarrow>
         (\<forall>f. gpio_out (call f s) (Lights ! i) = Some 0)"
  proof (intro allI impI)
    fix i f
    assume i: "i < 3"
      and b: "bit (BIAS_ON_MASK s) (2 - i) \<and> \<not> bit (BIAS_OFF_MASK s) (2 - i)"
    show "gpio_out (call f s) (Lights ! i) = Some 0"
      using i b d u n by (cases f) (simp_all add: call_def bit_and_iff)
  qed
  from d u n v show ?thesis by blast
qed

theorem force_off_vetoes_force_on_witness:
  "(0::nat) < 3
   \<and> bit (BIAS_ON_MASK conflict_state) (2 - 0) \<and> \<not> bit (BIAS_OFF_MASK conflict_state) (2 - 0)
   \<and> gpio_out (RotateDown conflict_state) redLight = Some 0
   \<and> gpio_out (RotateUp conflict_state) redLight = Some 0
   \<and> gpio_out (RotateNone conflict_state) redLight = Some 0"
proof -
  have b: "bit (BIAS_ON_MASK conflict_state) (2 - 0) \<and> \<not> bit (BIAS_OFF_MASK conflict_state) (2 - 0)"
    by (simp add: conflict_state_def initial_state_def)
  from force_off_vetoes_force_on [of conflict_state]
  have "\<forall>i<3. bit (BIAS_ON_MASK conflict_state) (2 - i) \<and> \<not> bit (BIAS_OFF_MASK conflict_state) (2 - i) \<longrightarrow>
         (\<forall>f. gpio_out (call f conflict_state) (Lights ! i) = Some 0)"
    by blast
  with b have "\<forall>f. gpio_out (call f conflict_state) (Lights ! 0) = Some 0"
    by (metis zero_less_numeral)
  then have "gpio_out (call Fn_RotateDown conflict_state) (Lights ! 0) = Some 0"
    and "gpio_out (call Fn_RotateUp conflict_state) (Lights ! 0) = Some 0"
    and "gpio_out (call Fn_RotateNone conflict_state) (Lights ! 0) = Some 0"
    by blast+
  with b show ?thesis
    by (simp add: call_def Lights_def)
qed

subsection \<open>The mode controller\<close>

lemma running_state_fields:
  "static_speed running_state = 5000"
  "static_rotation running_state = rotateDown"
  "timers running_state 0 = Some (5000, Fn_RotateDown)"
  "timer_calls running_state =
     [SetTimerFunc 0 10 None, SetTimerFunc 0 5000 (Some Fn_RotateDown)]"
  by (simp_all add: running_state_def updateTimerMode_def gpioSetTimerFunc_def
      initial_state_def Let_def pin_defs speed_defs directionFunction_def)

text \<open>A rising edge on one of the nine pins of the table, as one update of the state.\<close>

lemma updateTimerMode_rising:
  assumes "(pin, speed, f) \<in> set spec_mode_table"
  shows "updateTimerMode pin 1 tick s =
       s\<lparr>static_speed := speed,
         static_rotation := (case f of Fn_RotateDown \<Rightarrow> rotateDown
                                     | Fn_RotateUp \<Rightarrow> rotateUp
                                     | Fn_RotateNone \<Rightarrow> rotateNone),
         timers := (timers s)(0 \<mapsto> (speed, f)),
         timer_calls :=
           timer_calls s @ [SetTimerFunc 0 10 None, SetTimerFunc 0 speed (Some f)]\<rparr>"
proof -
  from assms have
    "pin = modeDownSlow \<and> speed = 5000 \<and> f = Fn_RotateDown
     \<or> pin = modeDownMedium \<and> speed = 2000 \<and> f = Fn_RotateDown
     \<or> pin = modeDownFast \<and> speed = 1000 \<and> f = Fn_RotateDown
     \<or> pin = modeUpSlow \<and> speed = 5000 \<and> f = Fn_RotateUp
     \<or> pin = modeUpMedium \<and> speed = 2000 \<and> f = Fn_RotateUp
     \<or> pin = modeUpFast \<and> speed = 1000 \<and> f = Fn_RotateUp
     \<or> pin = modeFlashSlow \<and> speed = 5000 \<and> f = Fn_RotateNone
     \<or> pin = modeFlashMedium \<and> speed = 2000 \<and> f = Fn_RotateNone
     \<or> pin = modeFlashFast \<and> speed = 1000 \<and> f = Fn_RotateNone"
    unfolding spec_mode_table_def by auto
  then show ?thesis
    by (elim disjE conjE)
       (simp_all add: updateTimerMode_def gpioSetTimerFunc_def Let_def
          pin_defs speed_defs directionFunction_def)
qed

text \<open>What the handler does at a level other than 1: the one call that stops timer 0.\<close>

lemma updateTimerMode_not_rising:
  "level \<noteq> 1 \<Longrightarrow>
     updateTimerMode pin level tick s =
       s\<lparr>timers := (timers s)(0 := None),
         timer_calls := timer_calls s @ [SetTimerFunc 0 10 None]\<rparr>"
  by (simp add: updateTimerMode_def gpioSetTimerFunc_def Let_def)

text \<open>
  C2 does not hold of the code. The call that stops the timer is the first statement of
  \<^verbatim>\<open>updateTimerMode\<close>, above the check of the level, so an event of level 0 or of
  level 2 is not ignored: with the "downwards, slow" timer running it leaves timer 0
  unarmed. When the dial is turned to "upwards, fast" and the falling edge of the old
  position arrives after the rising edge of the new one, no timer is left, and a tick
  of timer 0 changes nothing any more: the lamps stay as they are.
\<close>

theorem falling_edge_cancels_timer:
  "timers running_state 0 = Some (5000, Fn_RotateDown)
   \<and> timers (updateTimerMode modeDownSlow 0 0 running_state) 0 = None
   \<and> timers (updateTimerMode modeDownSlow 2 0 running_state) 0 = None
   \<and> timers (updateTimerMode modeUpFast 1 0 running_state) 0 = Some (1000, Fn_RotateUp)
   \<and> timers (updateTimerMode modeDownSlow 0 0
         (updateTimerMode modeUpFast 1 0 running_state)) 0 = None
   \<and> timer_tick 0 (updateTimerMode modeDownSlow 0 0
         (updateTimerMode modeUpFast 1 0 running_state)) =
       updateTimerMode modeDownSlow 0 0 (updateTimerMode modeUpFast 1 0 running_state)"
proof -
  have m: "(modeUpFast, 1000, Fn_RotateUp) \<in> set spec_mode_table"
    by (simp add: spec_mode_table_def)
  have up: "timers (updateTimerMode modeUpFast 1 0 running_state) 0 = Some (1000, Fn_RotateUp)"
    by (simp add: updateTimerMode_rising [OF m])
  have off: "timers (updateTimerMode pin level 0 s) 0 = None" if "level \<noteq> 1"
    for pin level s
    using that by (simp add: updateTimerMode_not_rising)
  have a: "timers (updateTimerMode modeDownSlow 0 0 running_state) 0 = None"
    and b: "timers (updateTimerMode modeDownSlow 2 0 running_state) 0 = None"
    and c: "timers (updateTimerMode modeDownSlow 0 0
         (updateTimerMode modeUpFast 1 0 running_state)) 0 = None"
    by (simp_all add: off)
  from c have d: "timer_tick 0 (updateTimerMode modeDownSlow 0 0
         (updateTimerMode modeUpFast 1 0 running_state)) =
       updateTimerMode modeDownSlow 0 0 (updateTimerMode modeUpFast 1 0 running_state)"
    by (simp add: timer_tick_def)
  from running_state_fields(3) a b up c d show ?thesis
    by blast
qed

text \<open>
  C7. A rising edge on one of the nine speed and direction pins makes two timer calls,
  the cancellation first and the arming second; afterwards timer 0 is armed at the
  speed of that pin with the step function of that pin, a tick of it calls that
  function, and no other timer number is touched, so a program that only ever used
  timer 0 has exactly that one timer. A second rising edge leaves only the timer of the
  second selection.
\<close>

theorem mode_switch_rearms_single_timer:
  assumes "(pin, speed, f) \<in> set spec_mode_table"
  shows "timer_calls (updateTimerMode pin 1 tick s) =
           timer_calls s @ [SetTimerFunc 0 10 None, SetTimerFunc 0 speed (Some f)]
       \<and> timers (updateTimerMode pin 1 tick s) = (timers s)(0 \<mapsto> (speed, f))
       \<and> timer_tick 0 (updateTimerMode pin 1 tick s) = call f (updateTimerMode pin 1 tick s)
       \<and> (dom (timers s) \<subseteq> {0} \<longrightarrow> dom (timers (updateTimerMode pin 1 tick s)) = {0})
       \<and> (\<forall>(pin2, speed2, f2) \<in> set spec_mode_table.
            timers (updateTimerMode pin2 1 tick2 (updateTimerMode pin 1 tick s)) =
              (timers s)(0 \<mapsto> (speed2, f2)))"
proof -
  let ?s' = "updateTimerMode pin 1 tick s"
  have t: "timers ?s' = (timers s)(0 \<mapsto> (speed, f))"
    by (simp add: updateTimerMode_rising [OF assms])
  have c: "timer_calls ?s' = timer_calls s @ [SetTimerFunc 0 10 None, SetTimerFunc 0 speed (Some f)]"
    by (simp add: updateTimerMode_rising [OF assms])
  have k: "timer_tick 0 ?s' = call f ?s'"
    by (simp add: timer_tick_def t)
  have d: "dom (timers s) \<subseteq> {0} \<longrightarrow> dom (timers ?s') = {0}"
    unfolding t by auto
  have two: "\<forall>(pin2, speed2, f2) \<in> set spec_mode_table.
            timers (updateTimerMode pin2 1 tick2 ?s') = (timers s)(0 \<mapsto> (speed2, f2))"
  proof (clarify)
    fix pin2 speed2 f2
    assume m: "(pin2, speed2, f2) \<in> set spec_mode_table"
    show "timers (updateTimerMode pin2 1 tick2 ?s') = (timers s)(0 \<mapsto> (speed2, f2))"
      unfolding updateTimerMode_rising [OF m] by (simp add: t)
  qed
  from c t k d two show ?thesis by blast
qed

theorem mode_switch_rearms_single_timer_witness:
  "(modeDownSlow, 5000, Fn_RotateDown) \<in> set spec_mode_table
   \<and> (modeUpFast, 1000, Fn_RotateUp) \<in> set spec_mode_table
   \<and> dom (timers (initial_state all_low)) = {}
   \<and> timer_calls running_state =
        [SetTimerFunc 0 10 None, SetTimerFunc 0 5000 (Some Fn_RotateDown)]
   \<and> timers running_state 0 = Some (5000, Fn_RotateDown)
   \<and> dom (timers running_state) = {0}
   \<and> timer_tick 0 running_state = RotateDown running_state
   \<and> timers (updateTimerMode modeUpFast 1 0 running_state) 0 = Some (1000, Fn_RotateUp)
   \<and> dom (timers (updateTimerMode modeUpFast 1 0 running_state)) = {0}"
proof -
  have m1: "(modeDownSlow, 5000, Fn_RotateDown) \<in> set spec_mode_table"
    and m2: "(modeUpFast, 1000, Fn_RotateUp) \<in> set spec_mode_table"
    by (simp_all add: spec_mode_table_def)
  have e: "dom (timers (initial_state all_low)) = {}"
    and e': "timers (initial_state all_low) = Map.empty"
    and e'': "timer_calls (initial_state all_low) = []"
    by (simp_all add: initial_state_def)
  note th = mode_switch_rearms_single_timer [OF m1, of 0 "initial_state all_low" 0,
      folded running_state_def]
  note c = th [THEN conjunct1]
  note t = th [THEN conjunct2, THEN conjunct1]
  note k = th [THEN conjunct2, THEN conjunct2, THEN conjunct1]
  note d = th [THEN conjunct2, THEN conjunct2, THEN conjunct2, THEN conjunct1]
  note two = th [THEN conjunct2, THEN conjunct2, THEN conjunct2, THEN conjunct2,
      THEN bspec, OF m2]
  have c': "timer_calls running_state =
        [SetTimerFunc 0 10 None, SetTimerFunc 0 5000 (Some Fn_RotateDown)]"
    using c by (simp add: e'')
  have t': "timers running_state 0 = Some (5000, Fn_RotateDown)"
    using t by simp
  have d': "dom (timers running_state) = {0}"
    using d by (simp add: e)
  have k': "timer_tick 0 running_state = RotateDown running_state"
    using k by (simp add: call_def)
  have two': "timers (updateTimerMode modeUpFast 1 0 running_state) 0 = Some (1000, Fn_RotateUp)"
    and two'': "dom (timers (updateTimerMode modeUpFast 1 0 running_state)) = {0}"
    using two by (simp_all add: e')
  from m1 m2 e c' t' d' k' two' two'' show ?thesis
    by blast
qed

subsection \<open>The startup scan\<close>

text \<open>The scan stops at the first pin that reads high, whatever follows it.\<close>

lemma mode_scan_first:
  "\<forall>j \<in> set pre. \<not> gpio_in s j \<Longrightarrow> gpio_in s i \<Longrightarrow>
     mode_scan (pre @ i # post) s = updateTimerMode i 1 1234 s"
  by (induction pre) (simp_all add: gpioRead_def)

lemma mode_scan_none:
  "\<forall>j \<in> set ms. \<not> gpio_in s j \<Longrightarrow> mode_scan ms s = s"
  by (induction ms) (simp_all add: gpioRead_def)

text \<open>
  C8. When \<^verbatim>\<open>Modes\<close> is cut at a pin \<open>i\<close> that reads high and every pin before it in
  the order of \<^verbatim>\<open>Modes\<close> reads low, the startup scan is the one call
  \<^verbatim>\<open>updateTimerMode(i, 1, 1234)\<close>; the pins after \<open>i\<close> are not looked at, so others
  that read high as well change nothing. The scan is a total function: no input makes
  it fail.
\<close>

theorem startup_first_active_wins:
  "Modes = pre @ i # post \<Longrightarrow> \<forall>j \<in> set pre. \<not> gpio_in s j \<Longrightarrow> gpio_in s i \<Longrightarrow>
     setup_scan s = updateTimerMode i 1 1234 s"
  unfolding setup_scan_def using mode_scan_first [of pre s i post] by simp

theorem startup_first_active_wins_witness:
  "Modes = [modeRand, modeDownSlow] @ modeDownMedium #
             [modeDownFast, modeUpSlow, modeUpMedium, modeUpFast,
              modeFlashSlow, modeFlashMedium, modeFlashFast]
   \<and> \<not> two_modes_high modeRand \<and> \<not> two_modes_high modeDownSlow
   \<and> two_modes_high modeDownMedium \<and> two_modes_high modeUpSlow
   \<and> setup_scan (initial_state two_modes_high) =
       updateTimerMode modeDownMedium 1 1234 (initial_state two_modes_high)
   \<and> timers (setup_scan (initial_state two_modes_high)) 0 = Some (2000, Fn_RotateDown)"
proof -
  have a: "Modes = [modeRand, modeDownSlow] @ modeDownMedium #
             [modeDownFast, modeUpSlow, modeUpMedium, modeUpFast,
              modeFlashSlow, modeFlashMedium, modeFlashFast]"
    by (simp add: Modes_def)
  have b: "\<not> two_modes_high modeRand" "\<not> two_modes_high modeDownSlow"
    "two_modes_high modeDownMedium" "two_modes_high modeUpSlow"
    by (simp_all add: two_modes_high_def pin_defs)
  have p: "\<forall>j \<in> set [modeRand, modeDownSlow]. \<not> gpio_in (initial_state two_modes_high) j"
    using b by (simp add: initial_state_def)
  have q: "gpio_in (initial_state two_modes_high) modeDownMedium"
    using b by (simp add: initial_state_def)
  note th = startup_first_active_wins [OF a p q]
  have "timers (updateTimerMode modeDownMedium 1 1234 (initial_state two_modes_high)) 0
          = Some (2000, Fn_RotateDown)"
    by (simp add: updateTimerMode_rising [of modeDownMedium 2000 Fn_RotateDown] spec_mode_table_def)
  with a b th show ?thesis by simp
qed

subsection \<open>Who writes the sequence stage and the masks\<close>

lemma Sequence_Stage_gpioSetTimerFunc:
  "Sequence_Stage (gpioSetTimerFunc timer millis f s) = Sequence_Stage s"
  by (simp add: gpioSetTimerFunc_def)

lemma Sequence_Stage_updateTimerMode:
  "Sequence_Stage (updateTimerMode pin level tick s) = Sequence_Stage s"
  by (simp add: updateTimerMode_def Let_def Sequence_Stage_gpioSetTimerFunc)

lemma Sequence_Stage_mode_scan:
  "Sequence_Stage (mode_scan ms s) = Sequence_Stage s"
  by (induction ms) (simp_all add: Sequence_Stage_updateTimerMode)

text \<open>
  C9. A bias handler changes at most its own mask: \<^verbatim>\<open>updateOnBias\<close> returns the state
  with a new \<^verbatim>\<open>BIAS_ON_MASK\<close> and \<^verbatim>\<open>updateOffBias\<close> the state with a new
  \<^verbatim>\<open>BIAS_OFF_MASK\<close>, for every pin, level and tick; so neither touches
  \<^verbatim>\<open>Sequence_Stage\<close> nor the other mask. The mode handler, the startup scan and the
  light driver leave \<^verbatim>\<open>Sequence_Stage\<close> alone as well, which leaves the step
  functions as its only writers.
\<close>

theorem bias_handlers_frame:
  "(\<exists>m. updateOnBias oor pin level tick s = s\<lparr>BIAS_ON_MASK := m\<rparr>)
   \<and> (\<exists>m. updateOffBias oor pin level tick s = s\<lparr>BIAS_OFF_MASK := m\<rparr>)
   \<and> Sequence_Stage (updateOnBias oor pin level tick s) = Sequence_Stage s
   \<and> BIAS_OFF_MASK (updateOnBias oor pin level tick s) = BIAS_OFF_MASK s
   \<and> Sequence_Stage (updateOffBias oor pin level tick s) = Sequence_Stage s
   \<and> BIAS_ON_MASK (updateOffBias oor pin level tick s) = BIAS_ON_MASK s
   \<and> Sequence_Stage (updateTimerMode pin level tick s) = Sequence_Stage s
   \<and> Sequence_Stage (setup_scan s) = Sequence_Stage s
   \<and> Sequence_Stage (updateLights r s) = Sequence_Stage s"
proof -
  have on: "\<exists>m. updateOnBias oor pin level tick s = s\<lparr>BIAS_ON_MASK := m\<rparr>"
  proof (cases "level = 0 \<or> level = 1")
    case True
    then show ?thesis by (auto simp add: updateOnBias_def)
  next
    case False
    then have "updateOnBias oor pin level tick s = s\<lparr>BIAS_ON_MASK := BIAS_ON_MASK s\<rparr>"
      by (simp add: updateOnBias_def)
    then show ?thesis ..
  qed
  have off: "\<exists>m. updateOffBias oor pin level tick s = s\<lparr>BIAS_OFF_MASK := m\<rparr>"
  proof (cases "level = 0 \<or> level = 1")
    case True
    then show ?thesis by (auto simp add: updateOffBias_def)
  next
    case False
    then have "updateOffBias oor pin level tick s = s\<lparr>BIAS_OFF_MASK := BIAS_OFF_MASK s\<rparr>"
      by (simp add: updateOffBias_def)
    then show ?thesis ..
  qed
  have rest: "Sequence_Stage (updateOnBias oor pin level tick s) = Sequence_Stage s"
    "BIAS_OFF_MASK (updateOnBias oor pin level tick s) = BIAS_OFF_MASK s"
    "Sequence_Stage (updateOffBias oor pin level tick s) = Sequence_Stage s"
    "BIAS_ON_MASK (updateOffBias oor pin level tick s) = BIAS_ON_MASK s"
    "Sequence_Stage (updateLights r s) = Sequence_Stage s"
    by (simp_all add: updateOnBias_def updateOffBias_def updateLights_levels)
  from on off rest show ?thesis
    by (simp add: Sequence_Stage_updateTimerMode Sequence_Stage_mode_scan setup_scan_def)
qed

subsection \<open>Rotation over the whole word\<close>

text \<open>
  \<^verbatim>\<open>rightRotate\<close> and \<^verbatim>\<open>leftRotate\<close> rotate the 32 bits of the \<^verbatim>\<open>int\<close>, not the
  three bits of the lamps. Rotating up and then down gives a three-bit pattern back;
  rotating an odd pattern down moves its lowest bit into the sign bit, and the
  arithmetic shift of the rotation up then fills the word with ones.
\<close>

lemma three_bit_cases:
  fixes p :: int32
  assumes "p \<le> 7"
  shows "p = 0 \<or> p = 1 \<or> p = 2 \<or> p = 3 \<or> p = 4 \<or> p = 5 \<or> p = 6 \<or> p = 7"
proof -
  from assms have "unat p \<le> 7" by (simp add: word_le_nat_alt)
  then have "unat p = 0 \<or> unat p = 1 \<or> unat p = 2 \<or> unat p = 3
      \<or> unat p = 4 \<or> unat p = 5 \<or> unat p = 6 \<or> unat p = 7"
    by linarith
  moreover have "p = of_nat (unat p)" by simp
  ultimately have "p = of_nat 0 \<or> p = of_nat 1 \<or> p = of_nat 2 \<or> p = of_nat 3
      \<or> p = of_nat 4 \<or> p = of_nat 5 \<or> p = of_nat 6 \<or> p = of_nat 7"
    by metis
  then show ?thesis by simp
qed

lemma rightRotate_leftRotate_low:
  "p \<le> 7 \<Longrightarrow> rightRotate (leftRotate p) = p"
  by (drule three_bit_cases, elim disjE)
     (simp_all add: rightRotate_def leftRotate_def INT_BITS_def)

lemma leftRotate_rightRotate_odd:
  "p \<in> {1, 3, 5, 7} \<Longrightarrow> leftRotate (rightRotate p) = - 1"
  by (auto simp add: rightRotate_def leftRotate_def INT_BITS_def)

text \<open>
  C3 does not hold of the code. With only the green lamp lit (\<open>0b001\<close>) the rotation
  down gives \<open>0x80000000\<close>, and with only the red lamp lit (\<open>0b100\<close>) the rotation up
  gives \<open>0b1000\<close>: in both the three-bit field is empty, the lit lamp is lost.
\<close>

theorem rotation_loses_the_lamp:
  "rightRotate 1 = 0x80000000 \<and> rightRotate 1 AND 7 = 0
   \<and> leftRotate 4 = 8 \<and> leftRotate 4 AND 7 = 0"
  by (simp add: rightRotate_def leftRotate_def INT_BITS_def)

text \<open>
  C4 does not hold of the code. Rotating \<open>0b001\<close> down and then up gives the word of
  all ones, whose three-bit field is \<open>0b111\<close>, not \<open>0b001\<close>.
\<close>

theorem rotateUp_after_rotateDown_all_ones:
  "leftRotate (rightRotate 1) = 0xFFFFFFFF \<and> leftRotate (rightRotate 1) AND 7 = 7
   \<and> leftRotate (rightRotate 1) \<noteq> 1"
  by (simp add: rightRotate_def leftRotate_def INT_BITS_def)

lemma initial_fields:
  "Sequence_Stage (initial_state pins) = 4"
  "BIAS_ON_MASK (initial_state pins) = 0"
  "BIAS_OFF_MASK (initial_state pins) = 7"
  "gpio_in (initial_state pins) = pins"
  by (simp_all add: initial_state_def)

text \<open>
  C5 does not hold of the code. From the initial state (sequence stage \<open>0b100\<close>, masks
  \<open>0b000\<close> and \<open>0b111\<close>) one step down lights amber alone, as the claim says; one step
  up makes the stage \<open>0b1000\<close> and writes 0 to all three lamps, where the claim has
  green lit.
\<close>

theorem RotateUp_from_red_all_dark:
  "Sequence_Stage (initial_state all_low) = 4
   \<and> BIAS_ON_MASK (initial_state all_low) = 0
   \<and> BIAS_OFF_MASK (initial_state all_low) = 7
   \<and> Sequence_Stage (RotateUp (initial_state all_low)) = 8
   \<and> gpio_out (RotateUp (initial_state all_low)) redLight = Some 0
   \<and> gpio_out (RotateUp (initial_state all_low)) amberLight = Some 0
   \<and> gpio_out (RotateUp (initial_state all_low)) greenLight = Some 0
   \<and> gpio_out (RotateDown (initial_state all_low)) redLight = Some 0
   \<and> gpio_out (RotateDown (initial_state all_low)) amberLight = Some 1
   \<and> gpio_out (RotateDown (initial_state all_low)) greenLight = Some 0"
  by (simp add: initial_fields RotateUp_def RotateDown_def Sequence_Step_def Let_def
      updateLights_levels
      rightRotate_def leftRotate_def INT_BITS_def pin_defs)

subsection \<open>The bias masks from the switches\<close>

text \<open>
  C6 does not hold of the code. The force-on mask is the red level shifted by the amber
  level and then by the green level: with the amber switch alone high the mask is 0
  (the claim has bit 1 set), with all three high it is \<open>0b100\<close> (the claim has
  \<open>0b111\<close>). The force-off mask is computed by shifts whose counts are complements of
  0 or 1, so negative: its value is whatever the machine gives for such a shift.
\<close>

theorem updateOnBias_amber_only:
  "BIAS_ON_MASK (updateOnBias oor amberOnBias 1 0 (initial_state amber_on_high)) = 0
   \<and> BIAS_ON_MASK (updateOnBias oor redOnBias 1 0 (initial_state all_on_high)) = 4
   \<and> BIAS_OFF_MASK (updateOffBias oor redOffBias 0 0 (initial_state all_low)) =
       oor (oor (- 1) (- 1)) (- 1)"
  by (simp add: updateOnBias_def updateOffBias_def shl_def gpioRead_def initial_fields
      amber_on_high_def all_on_high_def all_low_def pin_defs)

end
